theory Spec2Isabelle
  imports Main
begin

section \<open>ContainerPilot handlers of the MySQL manager (bin/manage.py)\<close>

text \<open>
  The handlers of \<^verbatim>\<open>bin/manage.py\<close> are embedded as state-passing functions.
  A handler runs inside one process; what the process owns is a field of the record
  \<open>proc\<close> (the cached role \<^verbatim>\<open>node.cp.state\<close>, the directory
  \<^verbatim>\<open>/var/run/init.lock\<close>), and everything outside it (mysqld, Consul, Manta,
  ContainerPilot, the files under /tmp, the clock) is the component \<open>world\<close>, of an
  arbitrary type, which only the external operations of the record \<open>ops\<close> read and
  change. Every external call is appended to \<open>io_log\<close>, every call of the logger to
  \<open>log_lines\<close> (with its format string, the arguments left out). The decorator
  \<^verbatim>\<open>@debug\<close> of \<^verbatim>\<open>manager.utils\<close> traces calls and is left out;
  \<^verbatim>\<open>pre_start\<close> and \<^verbatim>\<open>main\<close> are not embedded.
\<close>

subsection \<open>Values, exceptions and outcomes\<close>

text \<open>The three role constants imported from \<^verbatim>\<open>manager.utils\<close>.\<close>

datatype role = PRIMARY | REPLICA | UNASSIGNED

text \<open>
  The exception classes the source names, each with its subclasses and taken to be
  unrelated to the others, \<open>OtherError\<close> standing for any class it does not name. \<^verbatim>\<open>sys.exit(n)\<close> is kept apart as the outcome \<open>Exit n\<close>: no
  \<^verbatim>\<open>except\<close> clause of the source catches it, and every \<^verbatim>\<open>finally\<close> runs on it.
\<close>

datatype exn =
    MySQLError | WaitTimeoutError | UnknownPrimary
  | IOError | OSError | IndexError | KeyError
  | ConsulError | CalledProcessError | OtherError

datatype 'a outcome = Return 'a | Raise exn | Exit int

text \<open>The status with which the interpreter leaves when a handler ends this way.\<close>

fun exit_status :: "'a outcome \<Rightarrow> int" where
  "exit_status (Return v) = 0"
| "exit_status (Raise e) = 1"
| "exit_status (Exit n) = n"

text \<open>
  The keys handed to Consul: four constants imported from \<^verbatim>\<open>manager.utils\<close> (their
  strings are not needed) and the literal \<^verbatim>\<open>'FAILOVER_IN_PROGRESS'\<close>.
\<close>

datatype key =
    PRIMARY_KEY | BACKUP_TTL_KEY | LAST_BINLOG_KEY | LAST_BACKUP_KEY
  | FAILOVER_IN_PROGRESS

text \<open>The two files the backup code opens, and the two lock operations it uses.\<close>

datatype fname = BACKUP_LOCKFILE | BACKUP_TAR

datatype flock_op = LOCK_EX_NB | LOCK_UN

datatype level = DEBUG | INFO | ERROR

type_synonym row = "(string \<times> string) list"

type_synonym svc_instance = "(string \<times> (string \<times> string) list) list"

text \<open>The identity of a node: \<^verbatim>\<open>node.hostname\<close>, \<^verbatim>\<open>node.name\<close>, \<^verbatim>\<open>node.ip\<close>.\<close>

record node =
  hostname :: string
  name :: string
  ip :: string

subsection \<open>External calls\<close>

text \<open>One constructor for each external call the handlers make, with its arguments.\<close>

datatype event =
    EMysqlGetPrimary
  | EMysqlQuery string
  | EMysqlFailover "string list"
  | EMysqlWaitForConnection
  | EMysqlSetTimezoneInfo
  | EMysqlSetupRootUser
  | EMysqlCreateDb
  | EMysqlCreateDefaultUser
  | EMysqlCreateReplUser
  | EMysqlExpireRootPassword
  | EMysqlExecute string
  | EMysqlSetupReplication "string option"
  | EConsulGetPrimary "nat option"
  | EConsulRenewSession
  | EConsulPut key string
  | EConsulGet key
  | EConsulCreateSession key nat
  | EConsulLock key string string
  | EConsulUnlock key string
  | EConsulIsLocked key
  | EConsulHealthService role
  | EConsulIsCheckHealthy key
  | EConsulPassCheck key
  | EConsulRegisterCheck key
  | EConsulMarkAsPrimary string
  | ECpUpdate role
  | ECpReload
  | EMantaPutBackup string
  | EOpen fname string
  | EClose fname
  | EFlock flock_op
  | EUtcnowStrftime
  | EInnobackupex
  | ESleep nat

text \<open>
  The clients \<^verbatim>\<open>node.mysql\<close>, \<^verbatim>\<open>node.consul\<close>, \<^verbatim>\<open>node.manta\<close>, \<^verbatim>\<open>node.cp\<close>
  are imported from the package \<^verbatim>\<open>manager\<close>; the handlers are verified for every
  behaviour of theirs, so each method is a parameter: a function from the world to an
  outcome and the next world. A value tested for truth by the source (\<^verbatim>\<open>if conn\<close>,
  \<^verbatim>\<open>if node.cp.update()\<close>) is a \<open>bool\<close>; a name or address that may be
  \<^verbatim>\<open>None\<close> is a \<open>string option\<close>. \<open>cp_update\<close> is given the cached role because
  \<^verbatim>\<open>cp.update()\<close> is a method of the object that holds it.
\<close>

record 'w ops =
  mysql_get_primary :: "'w \<Rightarrow> (string option \<times> string option) outcome \<times> 'w"
  mysql_query :: "string \<Rightarrow> 'w \<Rightarrow> row list outcome \<times> 'w"
  mysql_failover :: "string list \<Rightarrow> 'w \<Rightarrow> unit outcome \<times> 'w"
  mysql_wait_for_connection :: "'w \<Rightarrow> bool outcome \<times> 'w"
  mysql_set_timezone_info :: "'w \<Rightarrow> unit outcome \<times> 'w"
  mysql_setup_root_user :: "'w \<Rightarrow> unit outcome \<times> 'w"
  mysql_create_db :: "'w \<Rightarrow> unit outcome \<times> 'w"
  mysql_create_default_user :: "'w \<Rightarrow> unit outcome \<times> 'w"
  mysql_create_repl_user :: "'w \<Rightarrow> unit outcome \<times> 'w"
  mysql_expire_root_password :: "'w \<Rightarrow> unit outcome \<times> 'w"
  mysql_execute :: "string \<Rightarrow> 'w \<Rightarrow> unit outcome \<times> 'w"
  mysql_setup_replication :: "string option \<Rightarrow> 'w \<Rightarrow> unit outcome \<times> 'w"
  consul_get_primary :: "nat option \<Rightarrow> 'w \<Rightarrow> (string option \<times> string option) outcome \<times> 'w"
  consul_renew_session :: "'w \<Rightarrow> unit outcome \<times> 'w"
  consul_put :: "key \<Rightarrow> string \<Rightarrow> 'w \<Rightarrow> unit outcome \<times> 'w"
  consul_get :: "key \<Rightarrow> 'w \<Rightarrow> string option outcome \<times> 'w"
  consul_create_session :: "key \<Rightarrow> nat \<Rightarrow> 'w \<Rightarrow> string outcome \<times> 'w"
  consul_lock :: "key \<Rightarrow> string \<Rightarrow> string \<Rightarrow> 'w \<Rightarrow> bool outcome \<times> 'w"
  consul_unlock :: "key \<Rightarrow> string \<Rightarrow> 'w \<Rightarrow> unit outcome \<times> 'w"
  consul_is_locked :: "key \<Rightarrow> 'w \<Rightarrow> bool outcome \<times> 'w"
  consul_health_service :: "role \<Rightarrow> 'w \<Rightarrow> svc_instance list outcome \<times> 'w"
  consul_is_check_healthy :: "key \<Rightarrow> 'w \<Rightarrow> bool outcome \<times> 'w"
  consul_pass_check :: "key \<Rightarrow> 'w \<Rightarrow> bool outcome \<times> 'w"
  consul_register_check :: "key \<Rightarrow> 'w \<Rightarrow> unit outcome \<times> 'w"
  consul_mark_as_primary :: "string \<Rightarrow> 'w \<Rightarrow> bool outcome \<times> 'w"
  cp_update :: "role \<Rightarrow> 'w \<Rightarrow> bool outcome \<times> 'w"
  cp_reload :: "'w \<Rightarrow> unit outcome \<times> 'w"
  manta_put_backup :: "string \<Rightarrow> 'w \<Rightarrow> unit outcome \<times> 'w"
  file_open :: "fname \<Rightarrow> string \<Rightarrow> 'w \<Rightarrow> unit outcome \<times> 'w"
  file_close :: "fname \<Rightarrow> 'w \<Rightarrow> unit outcome \<times> 'w"
  fcntl_flock :: "flock_op \<Rightarrow> 'w \<Rightarrow> unit outcome \<times> 'w"
  utcnow_strftime :: "'w \<Rightarrow> string outcome \<times> 'w"
  innobackupex :: "'w \<Rightarrow> unit outcome \<times> 'w"
  time_sleep :: "nat \<Rightarrow> 'w \<Rightarrow> unit outcome \<times> 'w"

subsection \<open>The state of a running handler\<close>

record 'w proc =
  cp_state :: role
  init_marker :: bool
  world :: 'w
  io_log :: "event list"
  log_lines :: "(level \<times> string) list"

type_synonym ('w, 'a) prog = "'w proc \<Rightarrow> 'a outcome \<times> 'w proc"

definition ret :: "'a \<Rightarrow> ('w, 'a) prog" where
  "ret v s = (Return v, s)"

definition sys_exit :: "int \<Rightarrow> ('w, 'a) prog" where
  "sys_exit n s = (Exit n, s)"

text \<open>Sequencing: the second statement runs only when the first returns.\<close>

definition bnd :: "('w, 'a) prog \<Rightarrow> ('a \<Rightarrow> ('w, 'b) prog) \<Rightarrow> ('w, 'b) prog" where
  "bnd m f s =
     (case m s of
        (Return v, s') \<Rightarrow> f v s'
      | (Raise e, s') \<Rightarrow> (Raise e, s')
      | (Exit n, s') \<Rightarrow> (Exit n, s'))"

text \<open>\<^verbatim>\<open>try: m except (classes) as ex: h\<close>.\<close>

definition try_except :: "('w, 'a) prog \<Rightarrow> exn list \<Rightarrow> (exn \<Rightarrow> ('w, 'a) prog) \<Rightarrow> ('w, 'a) prog" where
  "try_except m classes h s =
     (case m s of
        (Raise e, s') \<Rightarrow> if e \<in> set classes then h e s' else (Raise e, s')
      | (r, s') \<Rightarrow> (r, s'))"

text \<open>
  \<^verbatim>\<open>try: m finally: fin\<close>: \<open>fin\<close> runs however \<open>m\<close> ends; the outcome of \<open>m\<close>
  stands unless \<open>fin\<close> itself raises or exits.
\<close>

definition try_finally :: "('w, 'a) prog \<Rightarrow> ('w, unit) prog \<Rightarrow> ('w, 'a) prog" where
  "try_finally m fin s =
     (case m s of
        (r, s') \<Rightarrow>
          (case fin s' of
             (Return u, s'') \<Rightarrow> (r, s'')
           | (Raise e, s'') \<Rightarrow> (Raise e, s'')
           | (Exit n, s'') \<Rightarrow> (Exit n, s'')))"

text \<open>An external call: the operation acts on the world, the call is recorded.\<close>

definition call :: "event \<Rightarrow> ('w \<Rightarrow> 'a outcome \<times> 'w) \<Rightarrow> ('w, 'a) prog" where
  "call ev f s =
     (case f (world s) of
        (r, w') \<Rightarrow> (r, s\<lparr>world := w', io_log := io_log s @ [ev]\<rparr>))"

definition log :: "level \<Rightarrow> string \<Rightarrow> ('w, unit) prog" where
  "log lvl msg s = (Return (), s\<lparr>log_lines := log_lines s @ [(lvl, msg)]\<rparr>)"

definition set_cp_state :: "role \<Rightarrow> ('w, unit) prog" where
  "set_cp_state r s = (Return (), s\<lparr>cp_state := r\<rparr>)"

text \<open>Python's truth value of a name or address: \<^verbatim>\<open>None\<close> and \<^verbatim>\<open>''\<close> are false.\<close>

fun truthy :: "string option \<Rightarrow> bool" where
  "truthy None = False"
| "truthy (Some v) = (v \<noteq> [])"

subsection \<open>Node: role resolution\<close>

text \<open>
  \<^verbatim>\<open>Node.is_primary\<close>. A \<^verbatim>\<open>return\<close> inside a \<^verbatim>\<open>try\<close> block is the value
  \<open>Some b\<close> of that block, falling out of the block is \<open>None\<close>.
\<close>

definition is_primary :: "'w ops \<Rightarrow> node \<Rightarrow> ('w, bool) prog" where
  "is_primary ops nd s =
     (if cp_state s \<noteq> UNASSIGNED then (Return (cp_state s = PRIMARY), s)
      else
        bnd (try_except
               (bnd (call EMysqlGetPrimary (mysql_get_primary ops)) (\<lambda>(_, primary_ip).
                  if \<not> truthy primary_ip then ret None
                  else if primary_ip = Some (ip nd) then
                    bnd (set_cp_state PRIMARY) (\<lambda>_. ret (Some True))
                  else
                    bnd (set_cp_state REPLICA) (\<lambda>_. ret (Some False))))
               [MySQLError, WaitTimeoutError, UnknownPrimary]
               (\<lambda>ex. bnd (log DEBUG ''could not determine primary via mysqld status: %s'')
                        (\<lambda>_. ret None)))
          (\<lambda>r1. case r1 of
             Some b \<Rightarrow> ret b
           | None \<Rightarrow>
               bnd (try_except
                      (bnd (call (EConsulGetPrimary None) (consul_get_primary ops None))
                         (\<lambda>(primary_node, _).
                            if \<not> truthy primary_node then ret None
                            else if primary_node = Some (name nd) then
                              bnd (set_cp_state PRIMARY) (\<lambda>_. ret (Some True))
                            else
                              bnd (set_cp_state REPLICA) (\<lambda>_. ret (Some False))))
                      [UnknownPrimary]
                      (\<lambda>ex. bnd (log DEBUG ''could not determine primary via Consul: %s'')
                               (\<lambda>_. ret None)))
                 (\<lambda>r2. case r2 of
                    Some b \<Rightarrow> ret b
                  | None \<Rightarrow> bnd (set_cp_state UNASSIGNED) (\<lambda>_. ret False))) s)"

text \<open>\<^verbatim>\<open>Node.is_replica\<close>: \<^verbatim>\<open>return not self.is_primary()\<close>.\<close>

definition is_replica :: "'w ops \<Rightarrow> node \<Rightarrow> ('w, bool) prog" where
  "is_replica ops nd = bnd (is_primary ops nd) (\<lambda>b. ret (\<not> b))"

text \<open>\<^verbatim>\<open>Node.is_snapshot_node\<close>: \<^verbatim>\<open>return self.is_primary()\<close>.\<close>

definition is_snapshot_node :: "'w ops \<Rightarrow> node \<Rightarrow> ('w, bool) prog" where
  "is_snapshot_node ops nd = bnd (is_primary ops nd) (\<lambda>b. ret b)"

subsection \<open>Small pieces of Python\<close>

text \<open>\<^verbatim>\<open>a or b\<close> on truth values: \<open>b\<close> is evaluated only when \<open>a\<close> is false.\<close>

definition p_or :: "('w, bool) prog \<Rightarrow> ('w, bool) prog \<Rightarrow> ('w, bool) prog" where
  "p_or a b = bnd a (\<lambda>x. if x then ret True else b)"

text \<open>\<^verbatim>\<open>results[0]['File']\<close>: IndexError on no row, KeyError on no such column.\<close>

definition first_row_file :: "row list \<Rightarrow> ('w, string) prog" where
  "first_row_file results s =
     (case results of
        [] \<Rightarrow> (Raise IndexError, s)
      | r # _ \<Rightarrow>
          (case map_of r ''File'' of
             None \<Rightarrow> (Raise KeyError, s)
           | Some f \<Rightarrow> (Return f, s)))"

text \<open>\<^verbatim>\<open>[instance['Service']['Address'] for instance in nodes]\<close>.\<close>

fun service_address :: "svc_instance \<Rightarrow> string outcome" where
  "service_address inst =
     (case map_of inst ''Service'' of
        None \<Rightarrow> Raise KeyError
      | Some svc \<Rightarrow>
          (case map_of svc ''Address'' of
             None \<Rightarrow> Raise KeyError
           | Some a \<Rightarrow> Return a))"

fun addresses :: "svc_instance list \<Rightarrow> string list outcome" where
  "addresses [] = Return []"
| "addresses (i # rest) =
     (case service_address i of
        Return a \<Rightarrow>
          (case addresses rest of
             Return ips \<Rightarrow> Return (a # ips)
           | Raise e \<Rightarrow> Raise e
           | Exit n \<Rightarrow> Exit n)
      | Raise e \<Rightarrow> Raise e
      | Exit n \<Rightarrow> Exit n)"

text \<open>
  \<^verbatim>\<open>os.mkdir(LOCK_PATH, 0700)\<close> and \<^verbatim>\<open>os.rmdir(LOCK_PATH)\<close> on the directory
  \<^verbatim>\<open>/var/run/init.lock\<close>: creating it fails when it exists, removing it fails when it
  does not.
\<close>

definition os_mkdir :: "('w, unit) prog" where
  "os_mkdir s =
     (if init_marker s then (Raise OSError, s) else (Return (), s\<lparr>init_marker := True\<rparr>))"

definition os_rmdir :: "('w, unit) prog" where
  "os_rmdir s =
     (if init_marker s then (Return (), s\<lparr>init_marker := False\<rparr>) else (Raise OSError, s))"

text \<open>\<^verbatim>\<open>node.cp.update()\<close>, which reads the cached role.\<close>

definition cp_update_call :: "'w ops \<Rightarrow> ('w, bool) prog" where
  "cp_update_call ops s = call (ECpUpdate (cp_state s)) (cp_update ops (cp_state s)) s"

text \<open>
  The lock file \<^verbatim>\<open>'/tmp/{}'.format(BACKUP_TTL_KEY)\<close> is opened for update, and created
  when that fails.
\<close>

definition open_backup_lock :: "'w ops \<Rightarrow> ('w, unit) prog" where
  "open_backup_lock ops =
     try_except (call (EOpen BACKUP_LOCKFILE ''r+'') (file_open ops BACKUP_LOCKFILE ''r+''))
       [IOError]
       (\<lambda>ex. call (EOpen BACKUP_LOCKFILE ''w'') (file_open ops BACKUP_LOCKFILE ''w''))"

subsection \<open>Backups\<close>

text \<open>\<^verbatim>\<open>set_backup_ttl\<close>.\<close>

definition set_backup_ttl :: "'w ops \<Rightarrow> ('w, bool) prog" where
  "set_backup_ttl ops =
     bnd (call (EConsulPassCheck BACKUP_TTL_KEY) (consul_pass_check ops BACKUP_TTL_KEY))
       (\<lambda>passed.
          if \<not> passed then
            bnd (call (EConsulRegisterCheck BACKUP_TTL_KEY)
                   (consul_register_check ops BACKUP_TTL_KEY))
              (\<lambda>_. bnd (call (EConsulPassCheck BACKUP_TTL_KEY)
                           (consul_pass_check ops BACKUP_TTL_KEY))
                 (\<lambda>passed2.
                    if \<not> passed2 then
                      bnd (log ERROR ''Could not register health check for %s'')
                        (\<lambda>_. ret False)
                    else ret True))
          else ret True)"

text \<open>
  Lines 309 to 335 of \<^verbatim>\<open>create_snapshot\<close>, the body of its \<^verbatim>\<open>try\<close>
  block: the lock is taken without blocking, the snapshot streamed to
  \<^verbatim>\<open>/tmp/backup.tar\<close> (the \<^verbatim>\<open>with\<close> statement closes the file however
  \<^verbatim>\<open>innobackupex\<close> ends), uploaded, and recorded in Consul with the current binlog
  file. Falling out of the block is the value \<open>None\<close>.
\<close>

definition snapshot_steps :: "'w ops \<Rightarrow> ('w, bool option) prog" where
  "snapshot_steps ops =
     bnd (call (EFlock LOCK_EX_NB) (fcntl_flock ops LOCK_EX_NB)) (\<lambda>_.
     bnd (call EUtcnowStrftime (utcnow_strftime ops)) (\<lambda>backup_id.
     bnd (bnd (call (EOpen BACKUP_TAR ''w'') (file_open ops BACKUP_TAR ''w'')) (\<lambda>_.
            try_finally (call EInnobackupex (innobackupex ops))
              (call (EClose BACKUP_TAR) (file_close ops BACKUP_TAR)))) (\<lambda>_.
     bnd (log INFO ''snapshot completed, uploading to object store'') (\<lambda>_.
     bnd (call (EMantaPutBackup backup_id) (manta_put_backup ops backup_id)) (\<lambda>_.
     bnd (log DEBUG ''snapshot uploaded to %s/%s, setting LAST_BACKUP_KEY in Consul'') (\<lambda>_.
     bnd (call (EConsulPut LAST_BACKUP_KEY backup_id)
            (consul_put ops LAST_BACKUP_KEY backup_id)) (\<lambda>_.
     bnd (call (EMysqlQuery ''show master status'')
            (mysql_query ops ''show master status'')) (\<lambda>results.
     bnd (first_row_file results) (\<lambda>binlog_file.
     bnd (log DEBUG ''setting LAST_BINLOG_KEY in Consul'') (\<lambda>_.
     bnd (call (EConsulPut LAST_BINLOG_KEY binlog_file)
            (consul_put ops LAST_BINLOG_KEY binlog_file)) (\<lambda>_.
     ret None)))))))))))"

text \<open>Lines 340 to 344, the \<^verbatim>\<open>finally\<close> block of \<^verbatim>\<open>create_snapshot\<close>.\<close>

definition release_backup_lock :: "'w ops \<Rightarrow> ('w, unit) prog" where
  "release_backup_lock ops =
     bnd (log DEBUG ''unlocking backup lock'') (\<lambda>_.
     bnd (call (EFlock LOCK_UN) (fcntl_flock ops LOCK_UN)) (\<lambda>_.
     bnd (log DEBUG ''closing backup file'') (\<lambda>_.
     call (EClose BACKUP_LOCKFILE) (file_close ops BACKUP_LOCKFILE))))"

text \<open>
  \<^verbatim>\<open>create_snapshot\<close>. It returns \<^verbatim>\<open>False\<close> from the \<^verbatim>\<open>except IOError\<close> clause
  (the value \<open>Some False\<close>) and \<^verbatim>\<open>None\<close> at the end of the \<^verbatim>\<open>try\<close> block.
\<close>

definition create_snapshot :: "'w ops \<Rightarrow> node \<Rightarrow> ('w, bool option) prog" where
  "create_snapshot ops nd =
     bnd (open_backup_lock ops) (\<lambda>_.
       try_finally
         (try_except (snapshot_steps ops) [IOError] (\<lambda>ex. ret (Some False)))
         (release_backup_lock ops))"

text \<open>\<^verbatim>\<open>write_snapshot\<close>: both results are dropped.\<close>

definition write_snapshot :: "'w ops \<Rightarrow> node \<Rightarrow> ('w, unit) prog" where
  "write_snapshot ops nd =
     bnd (set_backup_ttl ops) (\<lambda>_. bnd (create_snapshot ops nd) (\<lambda>_. ret ()))"

text \<open>The three local functions of \<^verbatim>\<open>snapshot_task\<close>.\<close>

definition is_backup_running :: "'w ops \<Rightarrow> ('w, bool) prog" where
  "is_backup_running ops =
     bnd (open_backup_lock ops) (\<lambda>_.
       try_finally
         (try_except
            (bnd (call (EFlock LOCK_EX_NB) (fcntl_flock ops LOCK_EX_NB)) (\<lambda>_.
             bnd (call (EFlock LOCK_UN) (fcntl_flock ops LOCK_UN)) (\<lambda>_.
             ret False)))
            [IOError]
            (\<lambda>ex. ret True))
         (call (EClose BACKUP_LOCKFILE) (file_close ops BACKUP_LOCKFILE)))"

definition is_binlog_stale :: "'w ops \<Rightarrow> ('w, bool) prog" where
  "is_binlog_stale ops =
     bnd (call (EMysqlQuery ''show master status'') (mysql_query ops ''show master status''))
       (\<lambda>results.
          try_except
            (bnd (first_row_file results) (\<lambda>binlog_file.
             bnd (call (EConsulGet LAST_BINLOG_KEY) (consul_get ops LAST_BINLOG_KEY))
               (\<lambda>last_binlog_file. ret (Some binlog_file \<noteq> last_binlog_file))))
            [IndexError, KeyError]
            (\<lambda>ex. ret True))"

definition is_time_for_snapshot :: "'w ops \<Rightarrow> ('w, bool) prog" where
  "is_time_for_snapshot ops =
     bnd (call (EConsulIsCheckHealthy BACKUP_TTL_KEY)
            (consul_is_check_healthy ops BACKUP_TTL_KEY))
       (\<lambda>healthy. if healthy then ret False else ret True)"

text \<open>\<^verbatim>\<open>snapshot_task\<close>.\<close>

definition snapshot_task :: "'w ops \<Rightarrow> node \<Rightarrow> ('w, unit) prog" where
  "snapshot_task ops nd =
     bnd (p_or (bnd (is_snapshot_node ops nd) (\<lambda>b. ret (\<not> b))) (is_backup_running ops))
       (\<lambda>bail.
          if bail then ret ()
          else
            bnd (p_or (is_binlog_stale ops) (is_time_for_snapshot ops))
              (\<lambda>due. if due then write_snapshot ops nd else ret ()))"

subsection \<open>First-run initialization\<close>

text \<open>\<^verbatim>\<open>run_as_primary\<close>.\<close>

definition run_as_primary :: "'w ops \<Rightarrow> node \<Rightarrow> ('w, bool) prog" where
  "run_as_primary ops nd =
     bnd (call (EConsulMarkAsPrimary (name nd)) (consul_mark_as_primary ops (name nd)))
       (\<lambda>marked.
          if \<not> marked then ret False
          else
            bnd (set_cp_state PRIMARY) (\<lambda>_.
            bnd (call EMysqlWaitForConnection (mysql_wait_for_connection ops)) (\<lambda>conn.
            bnd (if conn then
                   bnd (call EMysqlSetTimezoneInfo (mysql_set_timezone_info ops)) (\<lambda>_.
                   bnd (call EMysqlSetupRootUser (mysql_setup_root_user ops)) (\<lambda>_.
                   bnd (call EMysqlCreateDb (mysql_create_db ops)) (\<lambda>_.
                   bnd (call EMysqlCreateDefaultUser (mysql_create_default_user ops)) (\<lambda>_.
                   bnd (call EMysqlCreateReplUser (mysql_create_repl_user ops)) (\<lambda>_.
                   call EMysqlExpireRootPassword (mysql_expire_root_password ops))))))
                 else
                   call (EMysqlExecute ''STOP SLAVE'') (mysql_execute ops ''STOP SLAVE''))
              (\<lambda>_.
            bnd (write_snapshot ops nd) (\<lambda>_.
            ret True)))))"

text \<open>\<^verbatim>\<open>run_as_replica\<close>.\<close>

definition run_as_replica :: "'w ops \<Rightarrow> node \<Rightarrow> ('w, unit) prog" where
  "run_as_replica ops nd =
     bnd (log INFO ''Setting up replication.'') (\<lambda>_.
     bnd (set_cp_state REPLICA) (\<lambda>_.
     bnd (call (EConsulGetPrimary (Some 30)) (consul_get_primary ops (Some 30)))
       (\<lambda>(_, primary_ip).
          call (EMysqlSetupReplication primary_ip) (mysql_setup_replication ops primary_ip))))"

text \<open>
  \<^verbatim>\<open>assert_initialized_for_state\<close>. The \<^verbatim>\<open>return True\<close> of the
  \<^verbatim>\<open>except OSError\<close> clause is the value \<open>Some True\<close> of the first block.
\<close>

definition assert_initialized_for_state :: "'w ops \<Rightarrow> node \<Rightarrow> ('w, bool) prog" where
  "assert_initialized_for_state ops nd =
     bnd (try_except (bnd os_mkdir (\<lambda>_. ret None)) [OSError] (\<lambda>ex. ret (Some True)))
       (\<lambda>r. case r of
          Some b \<Rightarrow> ret b
        | None \<Rightarrow>
            bnd (p_or (is_primary ops nd) (\<lambda>s. (Return (cp_state s = UNASSIGNED), s)))
              (\<lambda>as_primary.
                 if as_primary then
                   bnd (try_except
                          (bnd (run_as_primary ops nd) (\<lambda>ok.
                             if \<not> ok then
                               bnd (log ERROR
                                      (''Tried to mark node %s primary but primary exists, '' @
                                       ''exiting for retry on next check.'')) (\<lambda>_.
                               bnd os_rmdir (\<lambda>_.
                               sys_exit 1))
                             else ret ()))
                          [MySQLError]
                          (\<lambda>ex.
                             bnd (log ERROR
                                    (''Failed to set up %s as primary (%s). Exiting but will '' @
                                     ''retry setup. Check logs following this line to see if '' @
                                     ''setup needs reconfiguration or manual intervention to '' @
                                     ''continue.'')) (\<lambda>_.
                             bnd os_rmdir (\<lambda>_.
                             sys_exit 1))))
                     (\<lambda>_.
                        bnd (cp_update_call ops) (\<lambda>updated.
                          if updated then bnd (call ECpReload (cp_reload ops)) (\<lambda>_. ret False)
                          else ret False))
                 else
                   bnd (try_except (run_as_replica ops nd)
                          [UnknownPrimary, MySQLError]
                          (\<lambda>ex.
                             bnd (log ERROR
                                    (''Failed to set up %s for replication (%s). Exiting for retry '' @
                                     ''on next check.'')) (\<lambda>_.
                             bnd os_rmdir (\<lambda>_.
                             sys_exit 1))))
                     (\<lambda>_. ret False)))"

subsection \<open>The health handler\<close>

text \<open>\<^verbatim>\<open>health\<close>. A query result is false in \<^verbatim>\<open>if not ...\<close> when it has no row.\<close>

definition health :: "'w ops \<Rightarrow> node \<Rightarrow> ('w, unit) prog" where
  "health ops nd =
     bnd (assert_initialized_for_state ops nd) (\<lambda>initialized.
       if \<not> initialized then ret ()
       else
         bnd (is_primary ops nd) (\<lambda>primary.
           if primary then
             bnd (call EConsulRenewSession (consul_renew_session ops)) (\<lambda>_.
             bnd (call (EMysqlQuery ''select 1'') (mysql_query ops ''select 1'')) (\<lambda>_.
             ret ()))
           else
             bnd (is_replica ops nd) (\<lambda>replica.
               if replica then
                 bnd (call (EMysqlQuery ''show slave status'')
                        (mysql_query ops ''show slave status'')) (\<lambda>rows.
                   if rows = [] then
                     bnd (log ERROR ''Replica is not replicating.'') (\<lambda>_. sys_exit 1)
                   else ret ())
               else
                 bnd (log ERROR ''Cannot determine MySQL state; failing health check.'')
                   (\<lambda>_. sys_exit 1))))"

subsection \<open>The change handler\<close>

text \<open>
  The loop \<^verbatim>\<open>while True: if not node.consul.is_locked(_key): break; time.sleep(3)\<close>
  has no bound: it is a partial function, \<open>None\<close> when it never leaves.
\<close>

partial_function (option) wait_until_unlocked ::
  "'w ops \<Rightarrow> 'w proc \<Rightarrow> (unit outcome \<times> 'w proc) option" where
  "wait_until_unlocked ops s =
     (case call (EConsulIsLocked FAILOVER_IN_PROGRESS)
             (consul_is_locked ops FAILOVER_IN_PROGRESS) s of
        (Return locked, s1) \<Rightarrow>
          if \<not> locked then Some (Return (), s1)
          else
            (case call (ESleep 3) (time_sleep ops 3) s1 of
               (Return u, s2) \<Rightarrow> wait_until_unlocked ops s2
             | (Raise e, s2) \<Rightarrow> Some (Raise e, s2)
             | (Exit n, s2) \<Rightarrow> Some (Exit n, s2))
      | (Raise e, s1) \<Rightarrow> Some (Raise e, s1)
      | (Exit n, s1) \<Rightarrow> Some (Exit n, s1))"

declare wait_until_unlocked.simps [code]

text \<open>
  Lines 193 to 196 of \<^verbatim>\<open>on_change\<close>, the body of its \<^verbatim>\<open>try ... finally\<close>:
  the candidates are the addresses of the instances of the service REPLICA that pass
  their health check.
\<close>

definition failover_attempt :: "'w ops \<Rightarrow> ('w, unit) prog" where
  "failover_attempt ops =
     bnd (call (EConsulHealthService REPLICA) (consul_health_service ops REPLICA)) (\<lambda>nodes.
     bnd (\<lambda>s. (addresses nodes, s)) (\<lambda>ips.
     bnd (log INFO ''[on_change] Executing failover with candidates: %s'') (\<lambda>_.
     call (EMysqlFailover ips) (mysql_failover ops ips))))"

text \<open>
  Lines 189 to 211 of \<^verbatim>\<open>on_change\<close>: the failover lock is taken and the failover
  run, or the lock of another node is waited for.
\<close>

definition failover_phase ::
  "'w ops \<Rightarrow> node \<Rightarrow> 'w proc \<Rightarrow> (unit outcome \<times> 'w proc) option" where
  "failover_phase ops nd s =
     (case call (EConsulCreateSession FAILOVER_IN_PROGRESS 120)
             (consul_create_session ops FAILOVER_IN_PROGRESS 120) s of
        (Return session_id, s1) \<Rightarrow>
          (case call (EConsulLock FAILOVER_IN_PROGRESS (hostname nd) session_id)
                  (consul_lock ops FAILOVER_IN_PROGRESS (hostname nd) session_id) s1 of
             (Return locked, s2) \<Rightarrow>
               if locked then
                 Some (try_finally (failover_attempt ops)
                         (call (EConsulUnlock FAILOVER_IN_PROGRESS session_id)
                            (consul_unlock ops FAILOVER_IN_PROGRESS session_id)) s2)
               else
                 (case log INFO
                         (''[on_change] Failover in progress on another node, '' @
                          ''waiting to complete.'') s2 of
                    (_, s3) \<Rightarrow> wait_until_unlocked ops s3)
           | (Raise e, s2) \<Rightarrow> Some (Raise e, s2)
           | (Exit n, s2) \<Rightarrow> Some (Exit n, s2))
      | (Raise e, s1) \<Rightarrow> Some (Raise e, s1)
      | (Exit n, s1) \<Rightarrow> Some (Exit n, s1))"

text \<open>
  Lines 213 to 226 of \<^verbatim>\<open>on_change\<close>: the cached role is dropped and resolved again.
\<close>

definition after_failover :: "'w ops \<Rightarrow> node \<Rightarrow> ('w, unit) prog" where
  "after_failover ops nd =
     bnd (set_cp_state UNASSIGNED) (\<lambda>_.
     bnd (is_primary ops nd) (\<lambda>primary.
       if primary then
         bnd (cp_update_call ops) (\<lambda>updated.
           if updated then
             bnd (call (EConsulPut PRIMARY_KEY (hostname nd))
                    (consul_put ops PRIMARY_KEY (hostname nd))) (\<lambda>_.
             call ECpReload (cp_reload ops))
           else ret ())
       else
         (\<lambda>s. if cp_state s = UNASSIGNED then
                 bnd (log ERROR
                        (''[on_change] this node is neither primary or replica '' @
                         ''after failover; check replication status on cluster.''))
                   (\<lambda>_. sys_exit 1) s
               else ret () s)))"

text \<open>
  \<^verbatim>\<open>on_change\<close>. The first \<^verbatim>\<open>try\<close> block returns from the handler when
  \<^verbatim>\<open>get_primary\<close> returns (the value \<open>True\<close>) and goes on when it raises
  UnknownPrimary (the value \<open>False\<close>).
\<close>

definition on_change :: "'w ops \<Rightarrow> node \<Rightarrow> 'w proc \<Rightarrow> (unit outcome \<times> 'w proc) option" where
  "on_change ops nd s =
     (case is_primary ops nd s of
        (Return primary, s1) \<Rightarrow>
          if primary then
            Some (bnd (log DEBUG ''[on_change] this node is primary, no failover required.'')
                    (\<lambda>_.
                  bnd (cp_update_call ops) (\<lambda>updated.
                    if updated then
                      bnd (call (EConsulPut PRIMARY_KEY (hostname nd))
                             (consul_put ops PRIMARY_KEY (hostname nd))) (\<lambda>_.
                      call ECpReload (cp_reload ops))
                    else ret ())) s1)
          else
            (case try_except
                    (bnd (call (EConsulGetPrimary (Some 1)) (consul_get_primary ops (Some 1)))
                       (\<lambda>_.
                     bnd (log DEBUG
                            ''[on_change] primary is already healthy, no failover required'')
                       (\<lambda>_. ret True)))
                    [UnknownPrimary]
                    (\<lambda>ex. ret False) s1 of
               (Return healthy, s2) \<Rightarrow>
                 if healthy then Some (Return (), s2)
                 else
                   (case failover_phase ops nd s2 of
                      None \<Rightarrow> None
                    | Some (Return u, s3) \<Rightarrow> Some (after_failover ops nd s3)
                    | Some (Raise e, s3) \<Rightarrow> Some (Raise e, s3)
                    | Some (Exit n, s3) \<Rightarrow> Some (Exit n, s3))
             | (Raise e, s2) \<Rightarrow> Some (Raise e, s2)
             | (Exit n, s2) \<Rightarrow> Some (Exit n, s2))
      | (Raise e, s1) \<Rightarrow> Some (Raise e, s1)
      | (Exit n, s1) \<Rightarrow> Some (Exit n, s1))"

subsection \<open>Frame conditions\<close>

text \<open>A program keeps an observation \<open>f\<close> of the process when no run of it changes \<open>f\<close>.\<close>

definition keeps :: "('w proc \<Rightarrow> 'x) \<Rightarrow> ('w, 'a) prog \<Rightarrow> bool" where
  "keeps f m \<longleftrightarrow> (\<forall>s. f (snd (m s)) = f s)"

subsection \<open>Role resolution as the specification words it\<close>

text \<open>
  Step 2 of the resolver, in the words of the specification: the answer of the database
  about its replication source decides PRIMARY (the source is this node's address) or
  REPLICA (another address), and decides nothing when no source is reported or when the
  database cannot be reached or knows no primary.
\<close>

fun db_verdict :: "node \<Rightarrow> (string option \<times> string option) outcome \<Rightarrow> role option" where
  "db_verdict nd (Return (_, source)) =
     (if \<not> truthy source then None
      else if source = Some (ip nd) then Some PRIMARY
      else Some REPLICA)"
| "db_verdict nd _ = None"

text \<open>
  Step 3: the primary recorded in the coordination store decides PRIMARY (it is this
  node's identity) or REPLICA (another one), and nothing when none is recorded.
\<close>

fun store_verdict :: "node \<Rightarrow> (string option \<times> string option) outcome \<Rightarrow> role option" where
  "store_verdict nd (Return (primary_node, _)) =
     (if \<not> truthy primary_node then None
      else if primary_node = Some (name nd) then Some PRIMARY
      else Some REPLICA)"
| "store_verdict nd _ = None"

text \<open>The precedence, first match wins; step 4 is UNASSIGNED.\<close>

definition resolve_spec ::
  "node \<Rightarrow> (string option \<times> string option) outcome \<Rightarrow>
   (string option \<times> string option) outcome \<Rightarrow> role" where
  "resolve_spec nd db store =
     (case db_verdict nd db of
        Some r \<Rightarrow> r
      | None \<Rightarrow> (case store_verdict nd store of Some r \<Rightarrow> r | None \<Rightarrow> UNASSIGNED))"

text \<open>
  The failures the resolver swallows: from the database MySQLError, WaitTimeoutError
  (it cannot be reached) and UnknownPrimary; from the store UnknownPrimary.
\<close>

fun db_answer_handled :: "(string option \<times> string option) outcome \<Rightarrow> bool" where
  "db_answer_handled (Return v) = True"
| "db_answer_handled (Raise e) = (e \<in> {MySQLError, WaitTimeoutError, UnknownPrimary})"
| "db_answer_handled (Exit n) = False"

fun store_answer_handled :: "(string option \<times> string option) outcome \<Rightarrow> bool" where
  "store_answer_handled (Return v) = True"
| "store_answer_handled (Raise e) = (e = UnknownPrimary)"
| "store_answer_handled (Exit n) = False"

text \<open>A sequence of \<open>n\<close> calls of \<^verbatim>\<open>is_primary\<close> on one node, with their answers.\<close>

fun resolve_n :: "'w ops \<Rightarrow> node \<Rightarrow> nat \<Rightarrow> 'w proc \<Rightarrow> bool outcome list \<times> 'w proc" where
  "resolve_n ops nd 0 s = ([], s)"
| "resolve_n ops nd (Suc n) s =
     (case is_primary ops nd s of
        (r, s') \<Rightarrow> (case resolve_n ops nd n s' of (rs, s'') \<Rightarrow> (r # rs, s'')))"

subsection \<open>The claim of the primary designation\<close>

text \<open>
  Modelled from the spec: \<^verbatim>\<open>Consul.mark_as_primary\<close> is defined in
  \<^verbatim>\<open>manager/libconsul.py\<close>, which is not among the sources. The specification calls
  it an atomic "set if absent" on the claim key of the coordination store: the world is
  the holder of the claim, and the claim succeeds exactly when nobody holds it.
\<close>

definition mark_as_primary_spec :: "string \<Rightarrow> string option \<Rightarrow> bool outcome \<times> string option" where
  "mark_as_primary_spec nm holder =
     (case holder of
        None \<Rightarrow> (Return True, Some nm)
      | Some other \<Rightarrow> (Return False, Some other))"

subsection \<open>Example clusters\<close>

text \<open>
  A quiet environment, in which no operation changes the world: mysqld replicates
  from nowhere, Consul knows no primary and no key, every lock is free, every call succeeds,
  and the current binlog file is \<^verbatim>\<open>mysql-bin.000001\<close>.
\<close>

definition idle_ops :: "'w ops" where
  "idle_ops =
     \<lparr> mysql_get_primary = (\<lambda>w. (Raise UnknownPrimary, w)),
       mysql_query = (\<lambda>q w.
         (Return (if q = ''show master status'' then [[(''File'', ''mysql-bin.000001'')]]
                  else if q = ''select 1'' then [[(''1'', ''1'')]]
                  else []), w)),
       mysql_failover = (\<lambda>ips w. (Return (), w)),
       mysql_wait_for_connection = (\<lambda>w. (Return True, w)),
       mysql_set_timezone_info = (\<lambda>w. (Return (), w)),
       mysql_setup_root_user = (\<lambda>w. (Return (), w)),
       mysql_create_db = (\<lambda>w. (Return (), w)),
       mysql_create_default_user = (\<lambda>w. (Return (), w)),
       mysql_create_repl_user = (\<lambda>w. (Return (), w)),
       mysql_expire_root_password = (\<lambda>w. (Return (), w)),
       mysql_execute = (\<lambda>q w. (Return (), w)),
       mysql_setup_replication = (\<lambda>a w. (Return (), w)),
       consul_get_primary = (\<lambda>t w. (Raise UnknownPrimary, w)),
       consul_renew_session = (\<lambda>w. (Return (), w)),
       consul_put = (\<lambda>k v w. (Return (), w)),
       consul_get = (\<lambda>k w. (Return None, w)),
       consul_create_session = (\<lambda>k ttl w. (Return ''session-1'', w)),
       consul_lock = (\<lambda>k h sid w. (Return True, w)),
       consul_unlock = (\<lambda>k sid w. (Return (), w)),
       consul_is_locked = (\<lambda>k w. (Return False, w)),
       consul_health_service = (\<lambda>r w. (Return [], w)),
       consul_is_check_healthy = (\<lambda>k w. (Return True, w)),
       consul_pass_check = (\<lambda>k w. (Return True, w)),
       consul_register_check = (\<lambda>k w. (Return (), w)),
       consul_mark_as_primary = (\<lambda>n w. (Return True, w)),
       cp_update = (\<lambda>r w. (Return False, w)),
       cp_reload = (\<lambda>w. (Return (), w)),
       manta_put_backup = (\<lambda>b w. (Return (), w)),
       file_open = (\<lambda>f m w. (Return (), w)),
       file_close = (\<lambda>f w. (Return (), w)),
       fcntl_flock = (\<lambda>l w. (Return (), w)),
       utcnow_strftime = (\<lambda>w. (Return ''mysql-backup-2016-01-01T00-00-00Z'', w)),
       innobackupex = (\<lambda>w. (Return (), w)),
       time_sleep = (\<lambda>n w. (Return (), w)) \<rparr>"

definition node1 :: node where
  "node1 = \<lparr> hostname = ''node-1'', name = ''node-1'', ip = ''10.0.0.1'' \<rparr>"

definition node2 :: node where
  "node2 = \<lparr> hostname = ''node-2'', name = ''node-2'', ip = ''10.0.0.2'' \<rparr>"

text \<open>
  A process that has just started: its cached role, whether the marker exists, and the
  world around it.
\<close>

definition started :: "role \<Rightarrow> bool \<Rightarrow> 'w \<Rightarrow> 'w proc" where
  "started r marker w =
     \<lparr> cp_state = r, init_marker = marker, world = w, io_log = [], log_lines = [] \<rparr>"

text \<open>
  The database cannot be reached and Consul reports \<^verbatim>\<open>node-2\<close> as the primary.
\<close>

definition db_down_ops :: "nat ops" where
  "db_down_ops =
     idle_ops\<lparr> mysql_get_primary := (\<lambda>w. (Raise MySQLError, w)),
               consul_get_primary := (\<lambda>t w. (Return (Some ''node-2'', Some ''10.0.0.2''), w)) \<rparr>"


text \<open>
  The world is the holder of the primary claim, and \<^verbatim>\<open>mark_as_primary\<close> the atomic
  claim of the specification.
\<close>

definition claim_ops :: "string option ops" where
  "claim_ops = idle_ops\<lparr> consul_mark_as_primary := mark_as_primary_spec \<rparr>"

text \<open>
  One healthy replica is registered, and the failover that \<^verbatim>\<open>mysqlrpladmin\<close> runs
  fails.
\<close>

definition failover_fails_ops :: "nat ops" where
  "failover_fails_ops =
     idle_ops\<lparr> consul_health_service :=
                 (\<lambda>r w. (Return [[(''Service'', [(''Address'', ''10.0.0.2'')])]], w)),
               mysql_failover := (\<lambda>ips w. (Raise CalledProcessError, w)) \<rparr>"

text \<open>
  Another node holds the failover lock; the world counts the sleeps of this node, and the
  lock is gone after the first one.
\<close>

definition waiting_ops :: "nat ops" where
  "waiting_ops =
     idle_ops\<lparr> consul_lock := (\<lambda>k h sid w. (Return False, w)),
               consul_is_locked := (\<lambda>k w. (Return (w = 0), w)),
               time_sleep := (\<lambda>n w. (Return (), Suc w)) \<rparr>"

text \<open>
  The world counts the questions put to mysqld about its replication source: the first
  finds no replication set up, every later one finds this node's own address (a replica
  has attached to it in between).
\<close>

definition flip_ops :: "nat ops" where
  "flip_ops =
     idle_ops\<lparr> mysql_get_primary :=
                 (\<lambda>w. if w = 0 then (Raise UnknownPrimary, Suc w)
                      else (Return (Some ''1'', Some ''10.0.0.1''), w)) \<rparr>"



text \<open>mysqld replicates from \<^verbatim>\<open>10.0.0.2\<close>.\<close>

definition replicating_ops :: "nat ops" where
  "replicating_ops =
     idle_ops\<lparr> mysql_get_primary := (\<lambda>w. (Return (Some ''2'', Some ''10.0.0.2''), w)) \<rparr>"

text \<open>The binlog file recorded in Consul is the current one.\<close>

definition recorded_ops :: "nat ops" where
  "recorded_ops = idle_ops\<lparr> consul_get := (\<lambda>k w. (Return (Some ''mysql-bin.000001''), w)) \<rparr>"

section \<open>Verification\<close>

lemmas run_defs =
  bnd_def ret_def try_except_def try_finally_def call_def log_def set_cp_state_def
  sys_exit_def p_or_def

subsection \<open>Sequencing\<close>

lemma bnd_Return: "m s = (Return v, s') \<Longrightarrow> bnd m f s = f v s'"
  by (simp add: bnd_def)


lemma bnd_mkdir_fresh:
  "\<not> init_marker s \<Longrightarrow>
   bnd (try_except (bnd os_mkdir (\<lambda>_. ret None)) [OSError] (\<lambda>ex. ret (Some True))) f s =
     f None (s\<lparr>init_marker := True\<rparr>)"
  by (simp add: os_mkdir_def run_defs)

lemma bnd_mkdir_exists:
  "init_marker s \<Longrightarrow>
   bnd (try_except (bnd os_mkdir (\<lambda>_. ret None)) [OSError] (\<lambda>ex. ret (Some True))) f s =
     f (Some True) s"
  by (simp add: os_mkdir_def run_defs)

subsection \<open>What the handlers leave alone\<close>















lemma keeps_marker_is_primary: "keeps init_marker (is_primary ops nd)"
  unfolding keeps_def
proof
  fix s :: "'a proc"
  show "init_marker (snd (is_primary ops nd s)) = init_marker s"
    by (auto simp: is_primary_def run_defs split: prod.splits outcome.splits option.splits if_splits)
qed









lemma keepsD: "keeps f m \<Longrightarrow> m s = (r, s') \<Longrightarrow> f s' = f s"
  by (metis keeps_def snd_conv)

subsection \<open>Role resolution\<close>

text \<open>
  C1. On a node whose cached role is UNASSIGNED, \<^verbatim>\<open>is_primary\<close> follows the
  precedence of the specification: the database's replication source decides first (this
  node's address: PRIMARY, another address: REPLICA; no source, MySQLError,
  WaitTimeoutError and UnknownPrimary decide nothing and are swallowed), then the primary
  recorded in Consul (this node's name: PRIMARY, another name: REPLICA, none or
  UnknownPrimary: nothing), else UNASSIGNED. The role found is cached, the answer is
  whether it is PRIMARY, and Consul is asked only when the database decided nothing.
\<close>

theorem is_primary_precedence:
  assumes unassigned: "cp_state s = UNASSIGNED"
      and db: "mysql_get_primary ops (world s) = (db_answer, w1)"
      and store: "consul_get_primary ops None w1 = (store_answer, w2)"
      and db_ok: "db_answer_handled db_answer"
      and store_ok: "db_verdict nd db_answer = None \<longrightarrow> store_answer_handled store_answer"
  shows "fst (is_primary ops nd s) = Return (resolve_spec nd db_answer store_answer = PRIMARY)
       \<and> cp_state (snd (is_primary ops nd s)) = resolve_spec nd db_answer store_answer
       \<and> io_log (snd (is_primary ops nd s)) =
           io_log s @ (if db_verdict nd db_answer = None
                       then [EMysqlGetPrimary, EConsulGetPrimary None]
                       else [EMysqlGetPrimary])"
proof (cases db_answer)
  case (Return v)
  obtain x src where v: "v = (x, src)" by (cases v)
  show ?thesis
  proof (cases "db_verdict nd db_answer")
    case (Some r)
    with Return v unassigned db show ?thesis
      by (auto simp: is_primary_def resolve_spec_def run_defs split: if_splits)
  next
    case None
    with store_ok have h: "store_answer_handled store_answer" by simp
    from None Return v have nt: "\<not> truthy src" by (simp split: if_splits)
    show ?thesis
    proof (cases store_answer)
      case (Return p)
      then show ?thesis using None \<open>db_answer = Return v\<close> v nt unassigned db store
        by (cases p) (auto simp: is_primary_def resolve_spec_def run_defs split: if_splits)
    next
      case (Raise e)
      then show ?thesis using h None \<open>db_answer = Return v\<close> v nt unassigned db store
        by (auto simp: is_primary_def resolve_spec_def run_defs split: if_splits)
    next
      case (Exit n)
      with h show ?thesis by simp
    qed
  qed
next
  case (Raise e)
  with db_ok have e: "e = MySQLError \<or> e = WaitTimeoutError \<or> e = UnknownPrimary" by simp
  from Raise store_ok have h: "store_answer_handled store_answer" by simp
  show ?thesis
  proof (cases store_answer)
    case (Return p)
    then show ?thesis using e Raise unassigned db store
      by (cases p) (auto simp: is_primary_def resolve_spec_def run_defs split: if_splits)
  next
    case (Raise e')
    then show ?thesis using h e \<open>db_answer = Raise e\<close> unassigned db store
      by (auto simp: is_primary_def resolve_spec_def run_defs split: if_splits)
  next
    case (Exit n)
    with h show ?thesis by simp
  qed
next
  case (Exit n)
  with db_ok show ?thesis by simp
qed

text \<open>
  The example of the specification: the database is unreachable, Consul reports
  \<^verbatim>\<open>node-2\<close>, the local node is \<^verbatim>\<open>node-1\<close>; the role resolves to REPLICA.
\<close>

theorem is_primary_precedence_witness:
  "cp_state (started UNASSIGNED True (0::nat)) = UNASSIGNED
   \<and> mysql_get_primary db_down_ops (world (started UNASSIGNED True 0)) = (Raise MySQLError, 0)
   \<and> consul_get_primary db_down_ops None 0 = (Return (Some ''node-2'', Some ''10.0.0.2''), 0)
   \<and> db_answer_handled (Raise MySQLError)
   \<and> store_answer_handled (Return (Some ''node-2'', Some ''10.0.0.2''))
   \<and> fst (is_primary db_down_ops node1 (started UNASSIGNED True 0)) = Return False
   \<and> cp_state (snd (is_primary db_down_ops node1 (started UNASSIGNED True 0))) = REPLICA
   \<and> io_log (snd (is_primary db_down_ops node1 (started UNASSIGNED True 0))) =
        [EMysqlGetPrimary, EConsulGetPrimary None]"
  using is_primary_precedence [of "started UNASSIGNED True (0::nat)" db_down_ops "Raise MySQLError" 0
      "Return (Some ''node-2'', Some ''10.0.0.2'')" 0 node1]
  by (simp add: started_def db_down_ops_def idle_ops_def node1_def resolve_spec_def)

text \<open>
  C2. Once PRIMARY or REPLICA is cached, a call of \<^verbatim>\<open>is_primary\<close> answers from the
  cache and leaves the whole process as it was: no call to the database or to Consul, no
  change of the world, whatever the environment would have answered. So does every
  sequence of such calls, as long as nothing resets the cached role.
\<close>

theorem is_primary_cached:
  assumes "cp_state s \<noteq> UNASSIGNED"
  shows "is_primary ops nd s = (Return (cp_state s = PRIMARY), s)
       \<and> resolve_n ops nd n s = (replicate n (Return (cp_state s = PRIMARY)), s)"
  using assms by (induction n) (simp_all add: is_primary_def)

theorem is_primary_cached_witness:
  "cp_state (started REPLICA True (0::nat)) \<noteq> UNASSIGNED
   \<and> is_primary db_down_ops node1 (started REPLICA True 0) = (Return False, started REPLICA True 0)
   \<and> resolve_n db_down_ops node1 3 (started REPLICA True 0) =
        ([Return False, Return False, Return False], started REPLICA True 0)"
  using is_primary_cached [of "started REPLICA True (0::nat)" db_down_ops node1 3]
  by (simp add: started_def numeral_3_eq_3)

subsection \<open>First-run initialization\<close>





text \<open>
  C5, as the code has it. Of two claims of the primary designation on an unclaimed store
  the first succeeds and the second fails. The node whose claim fails does not bootstrap
  as a replica in that invocation: it logs an error, removes the marker and leaves with
  status 1; its only call after role resolution is the claim, and its cached role is not
  changed.
\<close>

theorem primary_claim_race:
  assumes cas: "consul_mark_as_primary ops = mark_as_primary_spec"
      and fresh: "\<not> init_marker s"
      and resolved: "is_primary ops loser (s\<lparr>init_marker := True\<rparr>) = (Return p, s1)"
      and primary_path: "p \<or> cp_state s1 = UNASSIGNED"
      and taken: "world s1 = snd (mark_as_primary_spec winner None)"
  shows "fst (mark_as_primary_spec winner None) = Return True
       \<and> fst (mark_as_primary_spec (name loser) (world s1)) = Return False
       \<and> snd (mark_as_primary_spec (name loser) (world s1)) = Some winner
       \<and> (\<exists>msg. assert_initialized_for_state ops loser s =
            (Exit 1, s1\<lparr>io_log := io_log s1 @ [EConsulMarkAsPrimary (name loser)],
                        log_lines := log_lines s1 @ [(ERROR, msg)],
                        init_marker := False\<rparr>))"
proof -
  have m1: "init_marker s1"
    using keepsD [OF keeps_marker_is_primary resolved] by simp
  have w1: "world s1 = Some winner"
    using taken by (simp add: mark_as_primary_spec_def)
  have step: "\<And>f. bnd (p_or (is_primary ops loser) (\<lambda>s. (Return (cp_state s = UNASSIGNED), s))) f
                  (s\<lparr>init_marker := True\<rparr>) = f True s1"
    using resolved primary_path by (auto simp: p_or_def bnd_def ret_def)
  have lost: "run_as_primary ops loser s1 =
                (Return False, s1\<lparr>io_log := io_log s1 @ [EConsulMarkAsPrimary (name loser)]\<rparr>)"
    using w1 by (simp add: run_as_primary_def cas mark_as_primary_spec_def run_defs)
  have "\<exists>msg. assert_initialized_for_state ops loser s =
            (Exit 1, s1\<lparr>io_log := io_log s1 @ [EConsulMarkAsPrimary (name loser)],
                        log_lines := log_lines s1 @ [(ERROR, msg)],
                        init_marker := False\<rparr>)"
    unfolding assert_initialized_for_state_def bnd_mkdir_fresh [OF fresh] option.case step
    using m1 lost by (auto simp: os_rmdir_def run_defs)
  then show ?thesis
    using w1 by (simp add: mark_as_primary_spec_def)
qed

text \<open>
  The claim as stated fails: \<^verbatim>\<open>node-1\<close> holds the claim, \<^verbatim>\<open>node-2\<close> starts with
  no role known; it leaves with status 1 after three calls, none of them of the replica
  bootstrap, and its role is still UNASSIGNED.
\<close>

theorem primary_claim_race_counterexample:
  "snd (mark_as_primary_spec ''node-1'' None) = Some ''node-1''
   \<and> fst (assert_initialized_for_state claim_ops node2 (started UNASSIGNED False (Some ''node-1'')))
       = Exit 1
   \<and> io_log (snd (assert_initialized_for_state claim_ops node2
        (started UNASSIGNED False (Some ''node-1''))))
       = [EMysqlGetPrimary, EConsulGetPrimary None, EConsulMarkAsPrimary ''node-2'']
   \<and> cp_state (snd (assert_initialized_for_state claim_ops node2
        (started UNASSIGNED False (Some ''node-1'')))) = UNASSIGNED
   \<and> \<not> init_marker (snd (assert_initialized_for_state claim_ops node2
        (started UNASSIGNED False (Some ''node-1''))))"
  by (simp add: assert_initialized_for_state_def is_primary_def run_as_primary_def
      os_mkdir_def os_rmdir_def run_defs claim_ops_def idle_ops_def node2_def started_def mark_as_primary_spec_def)

theorem primary_claim_race_witness:
  "consul_mark_as_primary claim_ops = mark_as_primary_spec
   \<and> \<not> init_marker (started UNASSIGNED False (Some ''node-1''))
   \<and> fst (is_primary claim_ops node2
          ((started UNASSIGNED False (Some ''node-1''))\<lparr>init_marker := True\<rparr>)) = Return False
   \<and> cp_state (snd (is_primary claim_ops node2
          ((started UNASSIGNED False (Some ''node-1''))\<lparr>init_marker := True\<rparr>))) = UNASSIGNED
   \<and> world (snd (is_primary claim_ops node2
          ((started UNASSIGNED False (Some ''node-1''))\<lparr>init_marker := True\<rparr>))) =
        snd (mark_as_primary_spec ''node-1'' None)
   \<and> fst (mark_as_primary_spec ''node-1'' None) = Return True
   \<and> fst (mark_as_primary_spec (name node2) (Some ''node-1'')) = Return False
   \<and> fst (assert_initialized_for_state claim_ops node2
          (started UNASSIGNED False (Some ''node-1''))) = Exit 1"
proof -
  let ?s = "started UNASSIGNED False (Some ''node-1'')"
  let ?s1 = "snd (is_primary claim_ops node2 (?s\<lparr>init_marker := True\<rparr>))"
  have cas: "consul_mark_as_primary claim_ops = mark_as_primary_spec"
    by (simp add: claim_ops_def)
  have fresh: "\<not> init_marker ?s"
    by (simp add: started_def)
  have answer: "fst (is_primary claim_ops node2 (?s\<lparr>init_marker := True\<rparr>)) = Return False"
    by (simp add: is_primary_def run_defs claim_ops_def idle_ops_def node2_def started_def)
  then have resolved: "is_primary claim_ops node2 (?s\<lparr>init_marker := True\<rparr>) = (Return False, ?s1)"
    by (simp add: prod_eq_iff)
  have role: "cp_state ?s1 = UNASSIGNED"
    by (simp add: is_primary_def run_defs claim_ops_def idle_ops_def node2_def started_def)
  have w1: "world ?s1 = Some ''node-1''"
    by (simp add: is_primary_def run_defs claim_ops_def idle_ops_def node2_def started_def)
  have taken: "world ?s1 = snd (mark_as_primary_spec ''node-1'' None)"
    by (simp add: w1 mark_as_primary_spec_def)
  from primary_claim_race [OF cas fresh resolved _ taken] role
  have "fst (mark_as_primary_spec ''node-1'' None) = Return True
      \<and> fst (mark_as_primary_spec (name node2) (world ?s1)) = Return False
      \<and> fst (assert_initialized_for_state claim_ops node2 ?s) = Exit 1"
    by auto
  with cas fresh answer role taken w1 show ?thesis
    by metis
qed

subsection \<open>The change handler\<close>

text \<open>With no role cached, role resolution starts with a question to the database.\<close>

lemma is_primary_unassigned_asks_db:
  assumes "cp_state s = UNASSIGNED"
  shows "\<exists>evs. io_log (snd (is_primary ops nd s)) = io_log s @ EMysqlGetPrimary # evs"
  using assms
  by (auto simp: is_primary_def run_defs split: prod.splits outcome.splits option.splits if_splits)

text \<open>
  C6. When \<^verbatim>\<open>on_change\<close> has taken the failover lock, the unlock call is the last
  thing the failover phase does, however the attempt (listing the candidates, running the
  failover) ended. The outcome of the attempt stands when the unlock returns; when the
  attempt raised, \<^verbatim>\<open>on_change\<close> ends with that exception (or with the one the
  unlock raised), so the process leaves with a status that is not zero.
\<close>

theorem failover_lock_released:
  assumes not_primary: "is_primary ops nd s0 = (Return False, sa)"
      and no_primary: "call (EConsulGetPrimary (Some 1)) (consul_get_primary ops (Some 1)) sa =
                         (Raise UnknownPrimary, s)"
      and session: "call (EConsulCreateSession FAILOVER_IN_PROGRESS 120)
                      (consul_create_session ops FAILOVER_IN_PROGRESS 120) s = (Return sid, s1)"
      and locked: "call (EConsulLock FAILOVER_IN_PROGRESS (hostname nd) sid)
                     (consul_lock ops FAILOVER_IN_PROGRESS (hostname nd) sid) s1 = (Return True, s2)"
      and attempt: "failover_attempt ops s2 = (r, s3)"
      and unlock: "call (EConsulUnlock FAILOVER_IN_PROGRESS sid)
                     (consul_unlock ops FAILOVER_IN_PROGRESS sid) s3 = (u, s4)"
  shows "io_log s4 = io_log s3 @ [EConsulUnlock FAILOVER_IN_PROGRESS sid]
       \<and> (\<exists>res. failover_phase ops nd s = Some (res, s4)
              \<and> (u = Return () \<longrightarrow> res = r)
              \<and> (\<forall>e. u = Raise e \<longrightarrow> res = Raise e))
       \<and> (\<forall>e. r = Raise e \<and> u = Return () \<longrightarrow>
              on_change ops nd s0 = Some (Raise e, s4) \<and> exit_status (Raise e :: unit outcome) \<noteq> 0)
       \<and> (\<forall>e e'. r = Raise e \<and> u = Raise e' \<longrightarrow>
              on_change ops nd s0 = Some (Raise e', s4) \<and> exit_status (Raise e' :: unit outcome) \<noteq> 0)"
proof -
  have log4: "io_log s4 = io_log s3 @ [EConsulUnlock FAILOVER_IN_PROGRESS sid]"
    using unlock by (auto simp: call_def split: prod.splits)
  have phase: "failover_phase ops nd s =
      Some (case u of Return x \<Rightarrow> r | Raise e \<Rightarrow> Raise e | Exit n \<Rightarrow> Exit n, s4)"
    unfolding failover_phase_def
    by (simp add: session locked try_finally_def attempt unlock split: outcome.splits)
  have gate: "try_except
                (bnd (call (EConsulGetPrimary (Some 1)) (consul_get_primary ops (Some 1)))
                   (\<lambda>_. bnd (log DEBUG
                               ''[on_change] primary is already healthy, no failover required'')
                          (\<lambda>_. ret True)))
                [UnknownPrimary] (\<lambda>ex. ret False) sa = (Return False, s)"
    using no_primary by (simp add: try_except_def bnd_def ret_def)
  have change: "\<And>e. (case u of Return x \<Rightarrow> r | Raise e \<Rightarrow> Raise e | Exit n \<Rightarrow> Exit n) = Raise e
                  \<Longrightarrow> on_change ops nd s0 = Some (Raise e, s4)"
    unfolding on_change_def not_primary prod.case outcome.case if_False gate phase by simp
  show ?thesis
    using log4 phase change by (auto split: outcome.splits)
qed

theorem failover_lock_released_witness:
  "fst (is_primary failover_fails_ops node1 (started UNASSIGNED True 0)) = Return False
   \<and> map_option fst (on_change failover_fails_ops node1 (started UNASSIGNED True 0)) =
        Some (Raise CalledProcessError)
   \<and> map_option (io_log \<circ> snd) (on_change failover_fails_ops node1 (started UNASSIGNED True 0)) =
        Some [EMysqlGetPrimary, EConsulGetPrimary None, EConsulGetPrimary (Some 1),
              EConsulCreateSession FAILOVER_IN_PROGRESS 120,
              EConsulLock FAILOVER_IN_PROGRESS ''node-1'' ''session-1'',
              EConsulHealthService REPLICA, EMysqlFailover [''10.0.0.2''],
              EConsulUnlock FAILOVER_IN_PROGRESS ''session-1'']"
proof -
  let ?ops = failover_fails_ops
  let ?start = "started UNASSIGNED True (0::nat)"
  let ?sa = "snd (is_primary ?ops node1 ?start)"
  let ?sb = "snd (call (EConsulGetPrimary (Some 1)) (consul_get_primary ?ops (Some 1)) ?sa)"
  let ?sc = "snd (call (EConsulCreateSession FAILOVER_IN_PROGRESS 120)
                    (consul_create_session ?ops FAILOVER_IN_PROGRESS 120) ?sb)"
  let ?sd = "snd (call (EConsulLock FAILOVER_IN_PROGRESS (hostname node1) ''session-1'')
                    (consul_lock ?ops FAILOVER_IN_PROGRESS (hostname node1) ''session-1'') ?sc)"
  let ?se = "snd (failover_attempt ?ops ?sd)"
  let ?sf = "snd (call (EConsulUnlock FAILOVER_IN_PROGRESS ''session-1'')
                    (consul_unlock ?ops FAILOVER_IN_PROGRESS ''session-1'') ?se)"
  note defs = is_primary_def failover_attempt_def run_defs failover_fails_ops_def idle_ops_def node1_def started_def
  have a: "fst (is_primary ?ops node1 ?start) = Return False"
    by (simp add: defs)
  then have not_primary: "is_primary ?ops node1 ?start = (Return False, ?sa)"
    by (simp add: prod_eq_iff)
  have "fst (call (EConsulGetPrimary (Some 1)) (consul_get_primary ?ops (Some 1)) ?sa) =
          Raise UnknownPrimary"
    by (simp add: defs)
  then have no_primary:
    "call (EConsulGetPrimary (Some 1)) (consul_get_primary ?ops (Some 1)) ?sa =
       (Raise UnknownPrimary, ?sb)"
    by (simp add: prod_eq_iff)
  have "fst (call (EConsulCreateSession FAILOVER_IN_PROGRESS 120)
               (consul_create_session ?ops FAILOVER_IN_PROGRESS 120) ?sb) = Return ''session-1''"
    by (simp add: defs)
  then have session:
    "call (EConsulCreateSession FAILOVER_IN_PROGRESS 120)
       (consul_create_session ?ops FAILOVER_IN_PROGRESS 120) ?sb = (Return ''session-1'', ?sc)"
    by (simp add: prod_eq_iff)
  have "fst (call (EConsulLock FAILOVER_IN_PROGRESS (hostname node1) ''session-1'')
               (consul_lock ?ops FAILOVER_IN_PROGRESS (hostname node1) ''session-1'') ?sc) =
          Return True"
    by (simp add: defs)
  then have locked:
    "call (EConsulLock FAILOVER_IN_PROGRESS (hostname node1) ''session-1'')
       (consul_lock ?ops FAILOVER_IN_PROGRESS (hostname node1) ''session-1'') ?sc =
       (Return True, ?sd)"
    by (simp add: prod_eq_iff)
  have "fst (failover_attempt ?ops ?sd) = Raise CalledProcessError"
    by (simp add: defs)
  then have attempt: "failover_attempt ?ops ?sd = (Raise CalledProcessError, ?se)"
    by (simp add: prod_eq_iff)
  have "fst (call (EConsulUnlock FAILOVER_IN_PROGRESS ''session-1'')
               (consul_unlock ?ops FAILOVER_IN_PROGRESS ''session-1'') ?se) = Return ()"
    by (simp add: defs)
  then have unlock:
    "call (EConsulUnlock FAILOVER_IN_PROGRESS ''session-1'')
       (consul_unlock ?ops FAILOVER_IN_PROGRESS ''session-1'') ?se = (Return (), ?sf)"
    by (simp add: prod_eq_iff)
  have log4: "io_log ?sf =
        [EMysqlGetPrimary, EConsulGetPrimary None, EConsulGetPrimary (Some 1),
         EConsulCreateSession FAILOVER_IN_PROGRESS 120,
         EConsulLock FAILOVER_IN_PROGRESS ''node-1'' ''session-1'',
         EConsulHealthService REPLICA, EMysqlFailover [''10.0.0.2''],
         EConsulUnlock FAILOVER_IN_PROGRESS ''session-1'']"
    by (simp add: defs)
  from failover_lock_released [OF not_primary no_primary session locked attempt unlock]
  have "on_change ?ops node1 ?start = Some (Raise CalledProcessError, ?sf)"
    by blast
  with a log4 show ?thesis
    by simp
qed

text \<open>
  C7. When the failover phase has returned (this node ran the failover, or waited for the
  lock of another node to go), the cached role is set to UNASSIGNED and
  \<^verbatim>\<open>is_primary\<close> resolves it again, asking the database first. A primary publishes
  itself; a node whose role is still UNASSIGNED logs an error and leaves with status 1; a
  replica returns.
\<close>

theorem after_failover_reresolves:
  assumes not_primary: "is_primary ops nd s0 = (Return False, sa)"
      and no_primary: "call (EConsulGetPrimary (Some 1)) (consul_get_primary ops (Some 1)) sa =
                         (Raise UnknownPrimary, sb)"
      and phase: "failover_phase ops nd sb = Some (Return (), s3)"
      and again: "is_primary ops nd (s3\<lparr>cp_state := UNASSIGNED\<rparr>) = (r, s4)"
  shows "(\<exists>evs. io_log s4 = io_log s3 @ EMysqlGetPrimary # evs)
       \<and> (r = Return False \<and> cp_state s4 = UNASSIGNED \<longrightarrow>
            (\<exists>msg. on_change ops nd s0 =
                      Some (Exit 1, s4\<lparr>log_lines := log_lines s4 @ [(ERROR, msg)]\<rparr>))
            \<and> exit_status (Exit 1 :: unit outcome) \<noteq> 0)
       \<and> (r = Return False \<and> cp_state s4 \<noteq> UNASSIGNED \<longrightarrow>
            on_change ops nd s0 = Some (Return (), s4))
       \<and> (r = Return True \<longrightarrow>
            on_change ops nd s0 =
              Some (bnd (cp_update_call ops) (\<lambda>updated.
                      if updated then
                        bnd (call (EConsulPut PRIMARY_KEY (hostname nd))
                               (consul_put ops PRIMARY_KEY (hostname nd))) (\<lambda>_.
                        call ECpReload (cp_reload ops))
                      else ret ()) s4))"
proof -
  have asked: "\<exists>evs. io_log s4 = io_log s3 @ EMysqlGetPrimary # evs"
    using is_primary_unassigned_asks_db [of "s3\<lparr>cp_state := UNASSIGNED\<rparr>" ops nd] again
    by simp
  have gate: "try_except
                (bnd (call (EConsulGetPrimary (Some 1)) (consul_get_primary ops (Some 1)))
                   (\<lambda>_. bnd (log DEBUG
                               ''[on_change] primary is already healthy, no failover required'')
                          (\<lambda>_. ret True)))
                [UnknownPrimary] (\<lambda>ex. ret False) sa = (Return False, sb)"
    using no_primary by (simp add: try_except_def bnd_def ret_def)
  have change: "on_change ops nd s0 = Some (after_failover ops nd s3)"
    unfolding on_change_def not_primary prod.case outcome.case if_False gate phase by simp
  have reset: "set_cp_state UNASSIGNED s3 = (Return (), s3\<lparr>cp_state := UNASSIGNED\<rparr>)"
    by (simp add: set_cp_state_def)
  show ?thesis
    unfolding change after_failover_def
    using asked again reset
    by (auto simp: bnd_def log_def sys_exit_def ret_def)
qed

theorem after_failover_reresolves_witness:
  "fst (is_primary waiting_ops node1 (started UNASSIGNED True 0)) = Return False
   \<and> map_option fst (on_change waiting_ops node1 (started UNASSIGNED True 0)) = Some (Exit 1)
   \<and> map_option (io_log \<circ> snd) (on_change waiting_ops node1 (started UNASSIGNED True 0)) =
        Some [EMysqlGetPrimary, EConsulGetPrimary None, EConsulGetPrimary (Some 1),
              EConsulCreateSession FAILOVER_IN_PROGRESS 120,
              EConsulLock FAILOVER_IN_PROGRESS ''node-1'' ''session-1'',
              EConsulIsLocked FAILOVER_IN_PROGRESS, ESleep 3,
              EConsulIsLocked FAILOVER_IN_PROGRESS, EMysqlGetPrimary,
              EConsulGetPrimary None]"
proof -
  let ?ops = waiting_ops
  let ?start = "started UNASSIGNED True (0::nat)"
  let ?sa = "snd (is_primary ?ops node1 ?start)"
  let ?sb = "snd (call (EConsulGetPrimary (Some 1)) (consul_get_primary ?ops (Some 1)) ?sa)"
  let ?sc = "\<lparr> cp_state = UNASSIGNED, init_marker = True, world = Suc 0,
               io_log = [EMysqlGetPrimary, EConsulGetPrimary None, EConsulGetPrimary (Some 1),
                         EConsulCreateSession FAILOVER_IN_PROGRESS 120,
                         EConsulLock FAILOVER_IN_PROGRESS ''node-1'' ''session-1'',
                         EConsulIsLocked FAILOVER_IN_PROGRESS, ESleep 3,
                         EConsulIsLocked FAILOVER_IN_PROGRESS],
               log_lines = [(DEBUG, ''could not determine primary via mysqld status: %s''),
                            (DEBUG, ''could not determine primary via Consul: %s''),
                            (INFO, ''[on_change] Failover in progress on another node, '' @
                                   ''waiting to complete.'')] \<rparr>"
  let ?sd = "snd (is_primary ?ops node1 (?sc\<lparr>cp_state := UNASSIGNED\<rparr>))"
  note defs = is_primary_def run_defs waiting_ops_def idle_ops_def node1_def started_def
  have a: "fst (is_primary ?ops node1 ?start) = Return False"
    by (simp add: defs)
  then have not_primary: "is_primary ?ops node1 ?start = (Return False, ?sa)"
    by (simp add: prod_eq_iff)
  have "fst (call (EConsulGetPrimary (Some 1)) (consul_get_primary ?ops (Some 1)) ?sa) =
          Raise UnknownPrimary"
    by (simp add: defs)
  then have no_primary:
    "call (EConsulGetPrimary (Some 1)) (consul_get_primary ?ops (Some 1)) ?sa =
       (Raise UnknownPrimary, ?sb)"
    by (simp add: prod_eq_iff)
  have phase: "failover_phase ?ops node1 ?sb = Some (Return (), ?sc)"
    apply (simp add: failover_phase_def defs)
    apply (subst wait_until_unlocked.simps)
    apply (simp add: call_def)
    apply (subst wait_until_unlocked.simps)
    apply (simp add: call_def)
    done
  have b: "fst (is_primary ?ops node1 (?sc\<lparr>cp_state := UNASSIGNED\<rparr>)) = Return False"
    by (simp add: defs)
  then have again: "is_primary ?ops node1 (?sc\<lparr>cp_state := UNASSIGNED\<rparr>) = (Return False, ?sd)"
    by (simp add: prod_eq_iff)
  have role: "cp_state ?sd = UNASSIGNED"
    by (simp add: defs)
  have logd: "io_log ?sd =
        [EMysqlGetPrimary, EConsulGetPrimary None, EConsulGetPrimary (Some 1),
         EConsulCreateSession FAILOVER_IN_PROGRESS 120,
         EConsulLock FAILOVER_IN_PROGRESS ''node-1'' ''session-1'',
         EConsulIsLocked FAILOVER_IN_PROGRESS, ESleep 3,
         EConsulIsLocked FAILOVER_IN_PROGRESS, EMysqlGetPrimary,
         EConsulGetPrimary None]"
    by (simp add: defs)
  from after_failover_reresolves [OF not_primary no_primary phase again] role
  obtain msg where "on_change ?ops node1 ?start =
      Some (Exit 1, ?sd\<lparr>log_lines := log_lines ?sd @ [(ERROR, msg)]\<rparr>)"
    by blast
  with a logd show ?thesis
    by simp
qed

subsection \<open>The snapshot task\<close>

text \<open>
  C3, as the code has it. A node with REPLICA cached returns without any call. A node that
  does not resolve as primary returns right after role resolution: nothing is done beyond
  what \<^verbatim>\<open>is_primary\<close> itself did. A primary returns when the probe of the local lock
  finds a backup running. Otherwise \<^verbatim>\<open>write_snapshot\<close> runs when the binlog is stale,
  and, when it is not, exactly when the TTL check is not passing. The binlog is stale when
  the file named by the first row of SHOW MASTER STATUS differs from the one recorded in
  Consul, and also when there is no such row or column. The probe finds a backup running
  when the lock cannot be taken without blocking.
\<close>

theorem snapshot_task_decision:
  "(cp_state s = REPLICA \<longrightarrow> snapshot_task ops nd s = (Return (), s))
   \<and> (is_primary ops nd s = (Return False, s1) \<longrightarrow> snapshot_task ops nd s = (Return (), s1))
   \<and> (is_primary ops nd s = (Return True, s1) \<and> is_backup_running ops s1 = (Return True, s2)
        \<longrightarrow> snapshot_task ops nd s = (Return (), s2))
   \<and> (is_primary ops nd s = (Return True, s1) \<and> is_backup_running ops s1 = (Return False, s2)
        \<and> is_binlog_stale ops s2 = (Return True, s3)
        \<longrightarrow> snapshot_task ops nd s = write_snapshot ops nd s3)
   \<and> (is_primary ops nd s = (Return True, s1) \<and> is_backup_running ops s1 = (Return False, s2)
        \<and> is_binlog_stale ops s2 = (Return False, s3)
        \<and> call (EConsulIsCheckHealthy BACKUP_TTL_KEY)
              (consul_is_check_healthy ops BACKUP_TTL_KEY) s3 = (Return ttl_passing, s4)
        \<longrightarrow> snapshot_task ops nd s =
              (if ttl_passing then (Return (), s4) else write_snapshot ops nd s4))
   \<and> (call (EMysqlQuery ''show master status'') (mysql_query ops ''show master status'') t
          = (Return (r # rest), t1)
        \<and> map_of r ''File'' = Some current
        \<and> call (EConsulGet LAST_BINLOG_KEY) (consul_get ops LAST_BINLOG_KEY) t1
          = (Return recorded, t2)
        \<longrightarrow> is_binlog_stale ops t = (Return (Some current \<noteq> recorded), t2))
   \<and> (call (EMysqlQuery ''show master status'') (mysql_query ops ''show master status'') t
          = (Return rows, t1)
        \<and> (rows = [] \<or> map_of (hd rows) ''File'' = None)
        \<longrightarrow> is_binlog_stale ops t = (Return True, t1))
   \<and> (open_backup_lock ops u = (Return (), u1)
        \<and> call (EFlock LOCK_EX_NB) (fcntl_flock ops LOCK_EX_NB) u1 = (Raise IOError, u2)
        \<and> call (EClose BACKUP_LOCKFILE) (file_close ops BACKUP_LOCKFILE) u2 = (Return (), u3)
        \<longrightarrow> is_backup_running ops u = (Return True, u3))
   \<and> (open_backup_lock ops u = (Return (), u1)
        \<and> call (EFlock LOCK_EX_NB) (fcntl_flock ops LOCK_EX_NB) u1 = (Return (), u2)
        \<and> call (EFlock LOCK_UN) (fcntl_flock ops LOCK_UN) u2 = (Return (), u3)
        \<and> call (EClose BACKUP_LOCKFILE) (file_close ops BACKUP_LOCKFILE) u3 = (Return (), u4)
        \<longrightarrow> is_backup_running ops u = (Return False, u4))"
proof (intro conjI impI; (elim conjE)?)
  assume "cp_state s = REPLICA"
  then show "snapshot_task ops nd s = (Return (), s)"
    by (simp add: snapshot_task_def p_or_def is_snapshot_node_def is_primary_def bnd_def ret_def)
next
  assume "is_primary ops nd s = (Return False, s1)"
  then show "snapshot_task ops nd s = (Return (), s1)"
    by (simp add: snapshot_task_def p_or_def is_snapshot_node_def bnd_def ret_def)
next
  assume "is_primary ops nd s = (Return True, s1)" "is_backup_running ops s1 = (Return True, s2)"
  then show "snapshot_task ops nd s = (Return (), s2)"
    by (simp add: snapshot_task_def p_or_def is_snapshot_node_def bnd_def ret_def)
next
  assume "is_primary ops nd s = (Return True, s1)" "is_backup_running ops s1 = (Return False, s2)"
    "is_binlog_stale ops s2 = (Return True, s3)"
  then show "snapshot_task ops nd s = write_snapshot ops nd s3"
    by (simp add: snapshot_task_def p_or_def is_snapshot_node_def bnd_def ret_def)
next
  assume "is_primary ops nd s = (Return True, s1)" "is_backup_running ops s1 = (Return False, s2)"
    "is_binlog_stale ops s2 = (Return False, s3)"
    "call (EConsulIsCheckHealthy BACKUP_TTL_KEY)
       (consul_is_check_healthy ops BACKUP_TTL_KEY) s3 = (Return ttl_passing, s4)"
  then show "snapshot_task ops nd s =
              (if ttl_passing then (Return (), s4) else write_snapshot ops nd s4)"
    by (simp add: snapshot_task_def p_or_def is_snapshot_node_def is_time_for_snapshot_def
        bnd_def ret_def)
next
  assume "call (EMysqlQuery ''show master status'') (mysql_query ops ''show master status'') t
          = (Return (r # rest), t1)" "map_of r ''File'' = Some current"
    "call (EConsulGet LAST_BINLOG_KEY) (consul_get ops LAST_BINLOG_KEY) t1 = (Return recorded, t2)"
  then show "is_binlog_stale ops t = (Return (Some current \<noteq> recorded), t2)"
    by (simp add: is_binlog_stale_def first_row_file_def try_except_def bnd_def ret_def)
next
  assume "call (EMysqlQuery ''show master status'') (mysql_query ops ''show master status'') t
          = (Return rows, t1)" "rows = [] \<or> map_of (hd rows) ''File'' = None"
  then show "is_binlog_stale ops t = (Return True, t1)"
    by (cases rows)
      (auto simp: is_binlog_stale_def first_row_file_def try_except_def bnd_def ret_def)
next
  assume "open_backup_lock ops u = (Return (), u1)"
    "call (EFlock LOCK_EX_NB) (fcntl_flock ops LOCK_EX_NB) u1 = (Raise IOError, u2)"
    "call (EClose BACKUP_LOCKFILE) (file_close ops BACKUP_LOCKFILE) u2 = (Return (), u3)"
  then show "is_backup_running ops u = (Return True, u3)"
    by (simp add: is_backup_running_def try_finally_def try_except_def bnd_def ret_def)
next
  assume "open_backup_lock ops u = (Return (), u1)"
    "call (EFlock LOCK_EX_NB) (fcntl_flock ops LOCK_EX_NB) u1 = (Return (), u2)"
    "call (EFlock LOCK_UN) (fcntl_flock ops LOCK_UN) u2 = (Return (), u3)"
    "call (EClose BACKUP_LOCKFILE) (file_close ops BACKUP_LOCKFILE) u3 = (Return (), u4)"
  then show "is_backup_running ops u = (Return False, u4)"
    by (simp add: is_backup_running_def try_finally_def try_except_def bnd_def ret_def)
qed

text \<open>
  The binlog recorded is the current one and the TTL check passes: the tick ends after the
  three checks, without a backup. Nothing is recorded: the backup runs.
\<close>

theorem snapshot_task_decision_witness:
  "fst (is_primary recorded_ops node1 (started PRIMARY True 0)) = Return True
   \<and> fst (is_backup_running recorded_ops (started PRIMARY True 0)) = Return False
   \<and> fst (is_binlog_stale recorded_ops
          (snd (is_backup_running recorded_ops (started PRIMARY True 0)))) = Return False
   \<and> fst (snapshot_task recorded_ops node1 (started PRIMARY True 0)) = Return ()
   \<and> io_log (snd (snapshot_task recorded_ops node1 (started PRIMARY True 0))) =
        [EOpen BACKUP_LOCKFILE ''r+'', EFlock LOCK_EX_NB, EFlock LOCK_UN,
         EClose BACKUP_LOCKFILE, EMysqlQuery ''show master status'',
         EConsulGet LAST_BINLOG_KEY, EConsulIsCheckHealthy BACKUP_TTL_KEY]
   \<and> fst (is_binlog_stale idle_ops
          (snd (is_backup_running idle_ops (started PRIMARY True (0::nat))))) = Return True
   \<and> snapshot_task idle_ops node1 (started PRIMARY True (0::nat)) =
        write_snapshot idle_ops node1
          (snd (is_binlog_stale idle_ops
             (snd (is_backup_running idle_ops (started PRIMARY True (0::nat))))))"
proof -
  let ?ops = recorded_ops
  let ?start = "started PRIMARY True (0::nat)"
  let ?sb = "snd (is_backup_running ?ops ?start)"
  let ?sc = "snd (is_binlog_stale ?ops ?sb)"
  let ?sd = "snd (call (EConsulIsCheckHealthy BACKUP_TTL_KEY)
                    (consul_is_check_healthy ?ops BACKUP_TTL_KEY) ?sc)"
  let ?tb = "snd (is_backup_running (idle_ops :: nat ops) ?start)"
  let ?tc = "snd (is_binlog_stale (idle_ops :: nat ops) ?tb)"
  note defs = is_primary_def is_snapshot_node_def first_row_file_def open_backup_lock_def
      set_backup_ttl_def snapshot_steps_def release_backup_lock_def create_snapshot_def
      write_snapshot_def is_backup_running_def is_binlog_stale_def is_time_for_snapshot_def
      snapshot_task_def run_defs recorded_ops_def idle_ops_def node1_def started_def
  have a: "fst (is_primary ?ops node1 ?start) = Return True"
    by (simp add: defs)
  have primary: "is_primary ?ops node1 ?start = (Return True, ?start)"
    by (simp add: is_primary_def started_def)
  have b: "fst (is_backup_running ?ops ?start) = Return False"
    by (simp add: defs)
  then have probe: "is_backup_running ?ops ?start = (Return False, ?sb)"
    by (simp add: prod_eq_iff)
  have c: "fst (is_binlog_stale ?ops ?sb) = Return False"
    by (simp add: defs)
  then have fresh: "is_binlog_stale ?ops ?sb = (Return False, ?sc)"
    by (simp add: prod_eq_iff)
  have "fst (call (EConsulIsCheckHealthy BACKUP_TTL_KEY)
               (consul_is_check_healthy ?ops BACKUP_TTL_KEY) ?sc) = Return True"
    by (simp add: defs)
  then have ttl: "call (EConsulIsCheckHealthy BACKUP_TTL_KEY)
                    (consul_is_check_healthy ?ops BACKUP_TTL_KEY) ?sc = (Return True, ?sd)"
    by (simp add: prod_eq_iff)
  have logd: "io_log ?sd =
        [EOpen BACKUP_LOCKFILE ''r+'', EFlock LOCK_EX_NB, EFlock LOCK_UN,
         EClose BACKUP_LOCKFILE, EMysqlQuery ''show master status'',
         EConsulGet LAST_BINLOG_KEY, EConsulIsCheckHealthy BACKUP_TTL_KEY]"
    by (simp add: defs)
  from snapshot_task_decision [where ops = ?ops and nd = node1 and s = ?start and ?s1.0 = ?start
      and ?s2.0 = ?sb and ?s3.0 = ?sc and ?s4.0 = ?sd and ttl_passing = True]
    primary probe fresh ttl
  have quiet: "snapshot_task ?ops node1 ?start = (Return (), ?sd)"
    by simp
  have primary': "is_primary idle_ops node1 ?start = (Return True, ?start)"
    by (simp add: is_primary_def started_def)
  have "fst (is_backup_running idle_ops ?start) = Return False"
    by (simp add: defs)
  then have probe': "is_backup_running idle_ops ?start = (Return False, ?tb)"
    by (simp add: prod_eq_iff)
  have d: "fst (is_binlog_stale idle_ops ?tb) = Return True"
    by (simp add: defs)
  then have stale': "is_binlog_stale idle_ops ?tb = (Return True, ?tc)"
    by (simp add: prod_eq_iff)
  from snapshot_task_decision [where ops = idle_ops and nd = node1 and s = ?start
      and ?s1.0 = ?start and ?s2.0 = ?tb and ?s3.0 = ?tc]
    primary' probe' stale'
  have due: "snapshot_task idle_ops node1 ?start = write_snapshot idle_ops node1 ?tc"
    by simp
  from a b c d quiet logd due show ?thesis
    by simp
qed

text \<open>
  The claim as stated fails in its parenthesis: a node with no role cached, whose mysqld
  replicates from another address, is not primary and returns without a backup, but only
  after it has queried the database.
\<close>

theorem snapshot_task_db_query_counterexample:
  "fst (is_primary replicating_ops node1 (started UNASSIGNED True 0)) = Return False
   \<and> snapshot_task replicating_ops node1 (started UNASSIGNED True 0) =
        (Return (),
         \<lparr> cp_state = REPLICA, init_marker = True, world = 0,
           io_log = [EMysqlGetPrimary], log_lines = [] \<rparr>)"
  by (simp add: is_primary_def is_snapshot_node_def first_row_file_def open_backup_lock_def
      set_backup_ttl_def snapshot_steps_def release_backup_lock_def create_snapshot_def
      write_snapshot_def is_backup_running_def is_binlog_stale_def is_time_for_snapshot_def
      snapshot_task_def run_defs replicating_ops_def idle_ops_def node1_def started_def)




subsection \<open>The health handler\<close>

text \<open>
  C10, as the code has it. \<^verbatim>\<open>is_replica\<close> is the negation of a new call of
  \<^verbatim>\<open>is_primary\<close>. In \<^verbatim>\<open>health\<close>, after a first call that answered False, the
  last branch is taken exactly when this second call answers True, which cannot happen
  when the first call left PRIMARY or REPLICA cached; otherwise the node, its role
  UNASSIGNED included, takes the replica branch, and fails there when
  SHOW SLAVE STATUS has no row.
\<close>

theorem health_replica_branch:
  assumes marker: "init_marker s"
      and first: "is_primary ops nd s = (Return False, s1)"
      and second: "is_primary ops nd s1 = (Return b, s2)"
      and query: "call (EMysqlQuery ''show slave status'') (mysql_query ops ''show slave status'') s2
                    = (q, s3)"
  shows "is_replica ops nd s1 = (Return (\<not> b), s2)
       \<and> (cp_state s1 \<noteq> UNASSIGNED \<longrightarrow> \<not> b \<and> s2 = s1)
       \<and> (b \<longrightarrow> health ops nd s =
              (Exit 1, s2\<lparr>log_lines := log_lines s2 @
                 [(ERROR, ''Cannot determine MySQL state; failing health check.'')]\<rparr>))
       \<and> (\<not> b \<and> q = Return [] \<longrightarrow> health ops nd s =
              (Exit 1, s3\<lparr>log_lines := log_lines s3 @ [(ERROR, ''Replica is not replicating.'')]\<rparr>))
       \<and> (\<forall>rows. \<not> b \<and> q = Return rows \<and> rows \<noteq> [] \<longrightarrow> health ops nd s = (Return (), s3))"
proof -
  have replica: "is_replica ops nd s1 = (Return (\<not> b), s2)"
    using second by (simp add: is_replica_def bnd_def ret_def)
  have cached: "cp_state s1 \<noteq> UNASSIGNED \<longrightarrow> \<not> b \<and> s2 = s1"
  proof
    assume c: "cp_state s1 \<noteq> UNASSIGNED"
    have "cp_state s1 \<noteq> PRIMARY"
    proof (cases "cp_state s = UNASSIGNED")
      case True
      with first show ?thesis
        by (auto simp: is_primary_def run_defs
            split: if_splits prod.splits outcome.splits option.splits)
    next
      case False
      then have "is_primary ops nd s = (Return (cp_state s = PRIMARY), s)"
        by (simp add: is_primary_def)
      with first have "Return (cp_state s = PRIMARY) = (Return False :: bool outcome)" and "s = s1"
        by (metis Pair_inject)+
      then show ?thesis by blast
    qed
    with c have "is_primary ops nd s1 = (Return False, s1)"
      by (simp add: is_primary_def)
    with second show "\<not> b \<and> s2 = s1"
      by (metis Pair_inject outcome.inject(1))
  qed
  have gate: "assert_initialized_for_state ops nd s = (Return True, s)"
    using marker by (simp add: assert_initialized_for_state_def bnd_mkdir_exists ret_def)
  have h: "health ops nd s =
      (if \<not> b then
         bnd (call (EMysqlQuery ''show slave status'') (mysql_query ops ''show slave status''))
           (\<lambda>rows. if rows = [] then
                      bnd (log ERROR ''Replica is not replicating.'') (\<lambda>_. sys_exit 1)
                    else ret ()) s2
       else bnd (log ERROR ''Cannot determine MySQL state; failing health check.'')
              (\<lambda>_. sys_exit 1) s2)"
    unfolding health_def
    by (simp add: bnd_Return [of "assert_initialized_for_state ops nd" s True s, OF gate]
        bnd_Return [of "is_primary ops nd" s False s1, OF first]
        bnd_Return [of "is_replica ops nd" s1 "\<not> b" s2, OF replica])
  show ?thesis
    using replica cached query
    by (auto simp: h bnd_def log_def sys_exit_def ret_def)
qed

theorem health_replica_branch_witness:
  "init_marker (started UNASSIGNED True (0::nat))
   \<and> fst (is_primary idle_ops node1 (started UNASSIGNED True (0::nat))) = Return False
   \<and> cp_state (snd (is_primary idle_ops node1 (started UNASSIGNED True (0::nat)))) = UNASSIGNED
   \<and> fst (is_replica idle_ops node1 (snd (is_primary idle_ops node1 (started UNASSIGNED True (0::nat)))))
        = Return True
   \<and> fst (health idle_ops node1 (started UNASSIGNED True (0::nat))) = Exit 1
   \<and> last (log_lines (snd (health idle_ops node1 (started UNASSIGNED True (0::nat))))) =
        (ERROR, ''Replica is not replicating.'')"
proof -
  let ?ops = "idle_ops :: nat ops"
  let ?start = "started UNASSIGNED True (0::nat)"
  let ?sa = "snd (is_primary ?ops node1 ?start)"
  let ?sb = "snd (is_primary ?ops node1 ?sa)"
  let ?sc = "snd (call (EMysqlQuery ''show slave status'')
                    (mysql_query ?ops ''show slave status'') ?sb)"
  note defs = is_primary_def run_defs idle_ops_def node1_def started_def
  have marker: "init_marker ?start"
    by (simp add: started_def)
  have a: "fst (is_primary ?ops node1 ?start) = Return False"
    by (simp add: defs)
  then have first: "is_primary ?ops node1 ?start = (Return False, ?sa)"
    by (simp add: prod_eq_iff)
  have role: "cp_state ?sa = UNASSIGNED"
    by (simp add: defs)
  have "fst (is_primary ?ops node1 ?sa) = Return False"
    by (simp add: defs)
  then have second: "is_primary ?ops node1 ?sa = (Return False, ?sb)"
    by (simp add: prod_eq_iff)
  have "fst (call (EMysqlQuery ''show slave status'')
               (mysql_query ?ops ''show slave status'') ?sb) = Return []"
    by (simp add: defs)
  then have query: "call (EMysqlQuery ''show slave status'')
                      (mysql_query ?ops ''show slave status'') ?sb = (Return [], ?sc)"
    by (simp add: prod_eq_iff)
  from health_replica_branch [OF marker first second query]
  have "is_replica ?ops node1 ?sa = (Return True, ?sb)"
    and "health ?ops node1 ?start =
      (Exit 1, ?sc\<lparr>log_lines := log_lines ?sc @ [(ERROR, ''Replica is not replicating.'')]\<rparr>)"
    by simp_all
  with marker a role show ?thesis
    by simp
qed

text \<open>
  The claim as stated fails: the last branch can be reached. The first resolution finds
  nothing (UNASSIGNED), the one made by \<^verbatim>\<open>is_replica\<close> finds this node's own address
  as the source.
\<close>

theorem health_else_branch_counterexample:
  "cp_state (started UNASSIGNED True (0::nat)) = UNASSIGNED
   \<and> fst (health flip_ops node1 (started UNASSIGNED True 0)) = Exit 1
   \<and> io_log (snd (health flip_ops node1 (started UNASSIGNED True 0))) =
        [EMysqlGetPrimary, EConsulGetPrimary None, EMysqlGetPrimary]
   \<and> log_lines (snd (health flip_ops node1 (started UNASSIGNED True 0))) =
        [(DEBUG, ''could not determine primary via mysqld status: %s''),
         (DEBUG, ''could not determine primary via Consul: %s''),
         (ERROR, ''Cannot determine MySQL state; failing health check.'')]"
  by (simp add: health_def assert_initialized_for_state_def is_replica_def is_primary_def
      os_mkdir_def run_defs flip_ops_def idle_ops_def node1_def started_def)

end
